theory Spec2Isabelle
  imports Complex_Main "HOL-Library.Sublist" "HOL-Library.Multiset"
begin

section \<open>Green Procurement Advisor: the server's scoring and analysis pipeline\<close>

text \<open>
  The development follows \<^verbatim>\<open>server/index.js\<close>. Text is modelled as \<^typ>\<open>string\<close>
  (a list of 8-bit characters) and is taken to be ASCII: characters outside \<open>A..Z\<close> are
  left alone by \<open>toLowerCase\<close>. Scores are JavaScript numbers that only ever hold small
  integers, so they are modelled as \<^typ>\<open>int\<close>.
\<close>

subsection \<open>String operations of the JavaScript runtime used by the server\<close>

definition lowerChar :: "char \<Rightarrow> char" where
  "lowerChar c =
     (let n = (of_char c :: nat) in if 65 \<le> n \<and> n \<le> 90 then char_of (n + 32) else c)"

definition toLowerCase :: "string \<Rightarrow> string" where
  "toLowerCase s = map lowerChar s"

text \<open>\<open>s.startsWith(p)\<close>\<close>

fun startsWith :: "string \<Rightarrow> string \<Rightarrow> bool" where
  "startsWith s [] = True"
| "startsWith [] (p # ps) = False"
| "startsWith (c # cs) (p # ps) = (c = p \<and> startsWith cs ps)"

text \<open>
  \<open>s.includes(p)\<close>: \<open>p\<close> occurs in \<open>s\<close> as a contiguous run of characters. The name
  carries a suffix because \<open>includes\<close> is reserved in Isabelle.
\<close>

fun includesStr :: "string \<Rightarrow> string \<Rightarrow> bool" where
  "includesStr [] p = (p = [])"
| "includesStr (c # cs) p = (startsWith (c # cs) p \<or> includesStr cs p)"

text \<open>
  \<open>s.trim()\<close> removes white space and line terminators at both ends; in ASCII these are
  TAB, LF, VT, FF, CR and the space.
\<close>

definition isWhiteSpace :: "char \<Rightarrow> bool" where
  "isWhiteSpace c = ((of_char c :: nat) \<in> {9, 10, 11, 12, 13, 32})"

definition trim :: "string \<Rightarrow> string" where
  "trim s = rev (dropWhile isWhiteSpace (rev (dropWhile isWhiteSpace s)))"

text \<open>
  \<open>s.split(sep)[1]\<close> for a string that starts with \<open>sep\<close>: \<open>beforeSep sep t\<close> is the part
  of \<open>t\<close> in front of the first occurrence of \<open>sep\<close>, all of \<open>t\<close> when there is none.
\<close>

fun beforeSep :: "string \<Rightarrow> string \<Rightarrow> string" where
  "beforeSep sep [] = []"
| "beforeSep sep (c # cs) = (if startsWith (c # cs) sep then [] else c # beforeSep sep cs)"

text \<open>\<open>JSON.stringify\<close> on an array of strings; an \<open>undefined\<close> element is written \<open>null\<close>.\<close>

definition hexDigit :: "nat \<Rightarrow> char" where
  "hexDigit n = ''0123456789abcdef'' ! (n mod 16)"

definition quoteJSONChar :: "char \<Rightarrow> string" where
  "quoteJSONChar c =
     (let n = (of_char c :: nat) in
      if n = 34 then [CHR 0x5C, CHR 0x22]
      else if n = 92 then [CHR 0x5C, CHR 0x5C]
      else if n = 8 then [CHR 0x5C, CHR ''b'']
      else if n = 12 then [CHR 0x5C, CHR ''f'']
      else if n = 10 then [CHR 0x5C, CHR ''n'']
      else if n = 13 then [CHR 0x5C, CHR ''r'']
      else if n = 9 then [CHR 0x5C, CHR ''t'']
      else if n < 32 then [CHR 0x5C, CHR ''u'', CHR ''0'', CHR ''0'', hexDigit (n div 16), hexDigit n]
      else [c])"

definition quoteJSONString :: "string \<Rightarrow> string" where
  "quoteJSONString s = [CHR 0x22] @ concat (map quoteJSONChar s) @ [CHR 0x22]"

fun joinWith :: "string \<Rightarrow> string list \<Rightarrow> string" where
  "joinWith sep [] = []"
| "joinWith sep [x] = x"
| "joinWith sep (x # y # ys) = x @ sep @ joinWith sep (y # ys)"

definition JSON_stringify :: "string option list \<Rightarrow> string" where
  "JSON_stringify xs =
     ''['' @ joinWith '','' (map (\<lambda>x. case x of None \<Rightarrow> ''null'' | Some s \<Rightarrow> quoteJSONString s) xs) @ '']''"

subsection \<open>Rows and the scoring function\<close>

text \<open>
  A row as the CSV parser emits it: an object whose keys are the (mapped) header names and
  whose values are the cells, all of them strings.
\<close>

type_synonym row = "string \<rightharpoonup> string"

text \<open>
  \<open>calculateGreenScore(item)\<close>. The argument may be \<open>null\<close>/\<open>undefined\<close>
  (\<open>None\<close>); \<open>!item.product\<close> holds when the key is missing and when the cell is the
  empty string.
\<close>

definition calculateGreenScore :: "row option \<Rightarrow> int" where
  "calculateGreenScore item =
     (case item of
        None \<Rightarrow> 0
      | Some r \<Rightarrow>
          (case r ''product'' of
             None \<Rightarrow> 0
           | Some product \<Rightarrow>
               if product = [] then 0
               else
                 let score = 50;
                     productName = toLowerCase product;
                     score = (if includesStr productName ''recycled'' then score + 20 else score);
                     score = (if includesStr productName ''compostable'' then score + 20 else score);
                     score = (if includesStr productName ''organic'' then score + 15 else score);
                     score = (if includesStr productName ''reusable'' then score + 15 else score);
                     score = (if includesStr productName ''led'' then score + 10 else score);
                     score = (if includesStr productName ''local'' then score + 10 else score);
                     score = (if includesStr productName ''plastic'' \<and> \<not> includesStr productName ''reusable''
                              then score - 30 else score);
                     score = (if includesStr productName ''disposable'' then score - 25 else score);
                     score = (if includesStr productName ''single-use'' then score - 30 else score)
                 in max 0 (min 100 score)))"

subsection \<open>Scored items and the analysis result\<close>

text \<open>
  An element of \<open>results\<close>, the object \<open>{ ...data, greenScore: score }\<close>: \<open>props\<close> holds
  its string-valued properties (the parsed columns and, once enrichment has written it,
  \<open>suggestion\<close>), \<open>greenScore\<close> the one numeric property, which replaces a parsed column of
  that very name.
\<close>

record scoredItem =
  props :: row
  greenScore :: int

definition scoreRow :: "row \<Rightarrow> scoredItem" where
  "scoreRow data =
     (let score = calculateGreenScore (Some data)
      in \<lparr>props = data(''greenScore'' := None), greenScore = score\<rparr>)"

record analysisResult =
  fileName :: string
  averageScore :: int
  summary :: string
  items :: "scoredItem list"

text \<open>
  \<open>Math.round(x)\<close>: the integer closest to \<open>x\<close>, the one towards \<open>+\<infinity>\<close> on a tie. The
  argument is the quotient of a sum of scores in \<open>0..100\<close> by the number of rows, which is
  below \<open>2^32\<close>; its distance from a tie is then at least \<open>2^-33\<close>, far above the rounding
  error of the double-precision division, so the exact rational quotient gives the same
  integer.
\<close>

definition Math_round :: "rat \<Rightarrow> int" where
  "Math_round x = \<lfloor>x + 1 / 2\<rfloor>"

definition computeAverageScore :: "scoredItem list \<Rightarrow> int" where
  "computeAverageScore results =
     (let totalScore = foldl (\<lambda>acc item. acc + greenScore item) 0 results
      in if length results > 0 then Math_round (of_int totalScore / of_nat (length results)) else 0)"

subsection \<open>Collaborators and the observable world\<close>

record decodedToken =
  uid :: string

record multerFile =
  originalname :: string
  buffer :: string

text \<open>
  A stored document of the \<open>analyses\<close> collection: the result, the owner and the
  storage-assigned id and server time stamp (in nanoseconds).
\<close>

record analysisDoc =
  docId :: string
  result :: analysisResult
  userId :: string
  createdAt :: nat

text \<open>Every request the server sends to the completion service or to the storage.\<close>

datatype call =
    ChatCompletion string nat
  | CollectionAdd
  | CollectionGet string

record world =
  analyses :: "analysisDoc list"
  traffic :: "call list"

text \<open>
  What the outside answers during one request:
  \<^item> \<open>verifyIdToken\<close>: the decoded token, \<open>None\<close> when verification throws;
  \<^item> \<open>csv\<close>: the CSV parser, called with the \<open>mapHeaders\<close> option and the file's bytes;
    the rows of its \<open>data\<close> events, \<open>None\<close> when it emits \<open>error\<close>;
  \<^item> \<open>chatCompletion k prompt max_tokens\<close>: the text \<open>choices[0].message.content\<close>
    of the \<open>k\<close>-th completion request of the upload, \<open>None\<close> when the request rejects
    or the reply has no such text;
  \<^item> \<open>collectionAdd\<close>: the id and time stamp the storage assigns, \<open>None\<close> when the
    insert rejects;
  \<^item> \<open>collectionGetFails\<close>: whether the history query rejects.
\<close>

record services =
  verifyIdToken :: "string \<Rightarrow> decodedToken option"
  csv :: "(string \<Rightarrow> string) \<Rightarrow> string \<Rightarrow> row list option"
  chatCompletion :: "nat \<Rightarrow> string \<Rightarrow> nat \<Rightarrow> string option"
  collectionAdd :: "(string \<times> nat) option"
  collectionGetFails :: bool

text \<open>
  \<open>data.createdAt.toDate().toISOString()\<close>. A time stamp of the storage is a number of
  seconds and of nanoseconds below \<open>10^9\<close>, kept here as the total of nanoseconds since the
  epoch. \<open>toDate()\<close> is the date at \<open>seconds * 1000 + Math.round(nanoseconds / 10^6)\<close>
  milliseconds, that is the total rounded to the nearest millisecond, a half going up.
  \<open>toISOString()\<close> is the ISO-8601 text of that date, which its milliseconds determine;
  it is kept as those milliseconds.
\<close>

datatype isoString = ISOString nat

fun instantOf :: "isoString \<Rightarrow> nat" where
  "instantOf (ISOString ms) = ms"

definition toISOString :: "nat \<Rightarrow> isoString" where
  "toISOString nanos = ISOString ((nanos + 500000) div 1000000)"

record historyEntry =
  entryId :: string
  entryResult :: analysisResult
  entryUserId :: string
  entryCreatedAt :: isoString

text \<open>
  The body of a reply: one of the three JSON shapes the handlers send, or the page of
  Express's default error handler, which is not JSON.
\<close>

datatype content =
    ErrorJson string
  | ResultJson analysisResult
  | HistoryJson "historyEntry list"
  | ErrorPage

record response =
  status :: nat
  body :: content

fun resultOf :: "response \<Rightarrow> analysisResult option" where
  "resultOf r = (case body r of ResultJson a \<Rightarrow> Some a | _ \<Rightarrow> None)"

fun errorOf :: "response \<Rightarrow> string option" where
  "errorOf r = (case body r of ErrorJson m \<Rightarrow> Some m | _ \<Rightarrow> None)"

fun historyOf :: "response \<Rightarrow> historyEntry list option" where
  "historyOf r = (case body r of HistoryJson h \<Rightarrow> Some h | _ \<Rightarrow> None)"

subsection \<open>The token middleware\<close>

text \<open>
  \<open>decodeIDToken\<close>: the value of \<open>req.currentUser\<close> after the middleware, from the
  \<open>Authorization\<close> header. A failed verification is logged and the request goes on without
  a user.
\<close>

definition decodeIDToken :: "services \<Rightarrow> string option \<Rightarrow> decodedToken option" where
  "decodeIDToken sv authorization =
     (case authorization of
        None \<Rightarrow> None
      | Some h \<Rightarrow>
          if startsWith h ''Bearer ''
          then (let idToken = beforeSep ''Bearer '' (drop (length ''Bearer '') h)
                in verifyIdToken sv idToken)
          else None)"

subsection \<open>POST /api/upload\<close>

definition mapHeaders :: "string \<Rightarrow> string" where
  "mapHeaders header = toLowerCase header"

definition summaryPrompt :: "scoredItem list \<Rightarrow> string" where
  "summaryPrompt results =
     ''Based on this list of purchased items: '' @
     JSON_stringify (map (\<lambda>i. props i ''product'') results) @
     '', write a 2-3 sentence summary of the environmental impact.''"

text \<open>A template literal prints a missing \<open>product\<close> as \<open>undefined\<close>.\<close>

definition alternativePrompt :: "scoredItem \<Rightarrow> string" where
  "alternativePrompt item =
     ''Suggest one greener, sustainable alternative for '' @ [CHR 0x22] @
     (case props item ''product'' of None \<Rightarrow> ''undefined'' | Some p \<Rightarrow> p) @
     [CHR 0x22] @ '' that is commonly available in India.''"

text \<open>
  \<open>Promise.all\<close>: the list of all values when every promise fulfils, a rejection as soon
  as one rejects.
\<close>

fun promiseAll :: "'a option list \<Rightarrow> 'a list option" where
  "promiseAll [] = Some []"
| "promiseAll (None # ps) = None"
| "promiseAll (Some x # ps) = map_option ((#) x) (promiseAll ps)"

text \<open>
  The requests for the low-scoring items are sent in the order of the items; the \<open>k\<close>-th
  of them is request \<open>k + 1\<close> of the upload, after the summary request.
\<close>

fun alternativeReplies :: "services \<Rightarrow> nat \<Rightarrow> scoredItem list \<Rightarrow> string option list" where
  "alternativeReplies sv k [] = []"
| "alternativeReplies sv k (item # rest) =
     chatCompletion sv k (alternativePrompt item) 60 # alternativeReplies sv (Suc k) rest"

text \<open>\<open>item.suggestion = text\<close>\<close>

definition setSuggestion :: "string \<Rightarrow> scoredItem \<Rightarrow> scoredItem" where
  "setSuggestion text item = item\<lparr>props := (props item)(''suggestion'' \<mapsto> text)\<rparr>"

text \<open>
  The assignments are made on the objects of \<open>lowScoringItems\<close>, which are the very
  objects of \<open>results\<close> that pass the filter: the \<open>k\<close>-th text goes to the \<open>k\<close>-th item of
  \<open>results\<close> whose score is below 40.
\<close>

fun attachSuggestions :: "string list \<Rightarrow> scoredItem list \<Rightarrow> scoredItem list" where
  "attachSuggestions texts [] = []"
| "attachSuggestions texts (item # rest) =
     (if greenScore item < 40
      then (case texts of
              [] \<Rightarrow> item # attachSuggestions [] rest
            | t # ts \<Rightarrow> setSuggestion t item # attachSuggestions ts rest)
      else item # attachSuggestions texts rest)"

definition aiFailure :: response where
  "aiFailure = \<lparr>status = 500, body = ErrorJson ''Failed to get AI insights or save data.''\<rparr>"

text \<open>The handler of the parser's \<open>end\<close> event: enrichment, aggregation, storage, reply.\<close>

definition onEnd :: "services \<Rightarrow> decodedToken \<Rightarrow> multerFile \<Rightarrow> scoredItem list \<Rightarrow> world \<Rightarrow> response \<times> world" where
  "onEnd sv currentUser file results w =
     (let prompt = summaryPrompt results;
          w1 = w\<lparr>traffic := traffic w @ [ChatCompletion prompt 100]\<rparr>
      in case chatCompletion sv 0 prompt 100 of
           None \<Rightarrow> (aiFailure, w1)
         | Some content \<Rightarrow>
             let summary = trim content;
                 lowScoringItems = filter (\<lambda>item. greenScore item < 40) results;
                 w2 = w1\<lparr>traffic := traffic w1 @
                        map (\<lambda>item. ChatCompletion (alternativePrompt item) 60) lowScoringItems\<rparr>
             in case promiseAll (alternativeReplies sv 1 lowScoringItems) of
                  None \<Rightarrow> (aiFailure, w2)
                | Some contents \<Rightarrow>
                    let results = attachSuggestions (map trim contents) results;
                        finalResult = \<lparr>fileName = originalname file,
                                       averageScore = computeAverageScore results,
                                       summary = summary,
                                       items = results\<rparr>;
                        w3 = w2\<lparr>traffic := traffic w2 @ [CollectionAdd]\<rparr>
                    in case collectionAdd sv of
                         None \<Rightarrow> (aiFailure, w3)
                       | Some (newId, serverTimestamp) \<Rightarrow>
                           (\<lparr>status = 200, body = ResultJson finalResult\<rparr>,
                            w3\<lparr>analyses := analyses w3 @
                                 [\<lparr>docId = newId, result = finalResult,
                                   userId = uid currentUser, createdAt = serverTimestamp\<rparr>]\<rparr>))"

definition uploadHandler :: "services \<Rightarrow> decodedToken option \<Rightarrow> multerFile option \<Rightarrow> world \<Rightarrow> response \<times> world" where
  "uploadHandler sv currentUser file w =
     (case currentUser of
        None \<Rightarrow>
          (\<lparr>status = 401, body = ErrorJson ''Unauthorized. You must be logged in to upload.''\<rparr>, w)
      | Some user \<Rightarrow>
          (case file of
             None \<Rightarrow> (\<lparr>status = 400, body = ErrorJson ''No file uploaded.''\<rparr>, w)
           | Some f \<Rightarrow>
               (case csv sv mapHeaders (buffer f) of
                  None \<Rightarrow> (\<lparr>status = 500, body = ErrorJson ''Failed to process CSV file.''\<rparr>, w)
                | Some rows \<Rightarrow> onEnd sv user f (map scoreRow rows) w)))"

subsection \<open>GET /api/history\<close>

text \<open>
  Modelled from the spec: the storage engine that answers the query is the Firestore
  service behind the Admin SDK, whose code is not part of the repository. The handler
  builds the query \<open>where('userId', '==', uid).orderBy('createdAt', 'desc')\<close>; following
  the storage contract \<open>queryByOwnerOrderedByTimeDesc(collection, ownerId)\<close> of the
  spec, its answer is the documents of the collection whose \<open>userId\<close> is the owner,
  latest \<open>createdAt\<close> first. Documents with the same time stamp come in the reverse of
  their insertion order here; neither the spec nor the server fixes their order.
\<close>

definition queryAnalyses :: "analysisDoc list \<Rightarrow> string \<Rightarrow> analysisDoc list" where
  "queryAnalyses docs owner = rev (sort_key createdAt (filter (\<lambda>d. userId d = owner) docs))"

definition toEntry :: "analysisDoc \<Rightarrow> historyEntry" where
  "toEntry doc =
     \<lparr>entryId = docId doc, entryResult = result doc, entryUserId = userId doc,
      entryCreatedAt = toISOString (createdAt doc)\<rparr>"

definition historyHandler :: "services \<Rightarrow> decodedToken option \<Rightarrow> world \<Rightarrow> response \<times> world" where
  "historyHandler sv currentUser w =
     (case currentUser of
        None \<Rightarrow>
          (\<lparr>status = 401,
            body = ErrorJson ''Unauthorized. You must be logged in to view history.''\<rparr>, w)
      | Some user \<Rightarrow>
          (let w1 = w\<lparr>traffic := traffic w @ [CollectionGet (uid user)]\<rparr>
           in if collectionGetFails sv
              then (\<lparr>status = 500, body = ErrorJson ''Failed to fetch analysis history.''\<rparr>, w1)
              else
                let docs = queryAnalyses (analyses w) (uid user)
                in if docs = [] then (\<lparr>status = 200, body = HistoryJson []\<rparr>, w1)
                   else (\<lparr>status = 200, body = HistoryJson (map toEntry docs)\<rparr>, w1)))"

subsection \<open>The routes behind the middleware\<close>

text \<open>
  A request passes \<open>cors()\<close>, \<open>express.json()\<close> and \<open>decodeIDToken\<close>, in this order,
  before its route; the upload route then runs \<open>upload.single('file')\<close> before its
  handler. \<open>cors()\<close> passes every GET and POST on. The two body parsers belong to
  packages outside the repository, so a request carries what they make of its body:
  \<^item> \<open>express.json()\<close> passes the request on, or raises an error that carries an HTTP
    status (400 for malformed JSON, 413 for a body that is too large, ...);
  \<^item> \<open>upload.single('file')\<close> passes the request on, with \<open>req.file\<close> set when the form
    holds the file, or raises an error, which carries no status.
  A raised error skips everything that follows and reaches Express's default error
  handler.
\<close>

datatype jsonOutcome =
    JsonPassed
  | JsonError nat

datatype multerOutcome =
    MulterPassed "multerFile option"
  | MulterError

record httpRequest =
  jsonBody :: jsonOutcome
  authorization :: "string option"
  multipart :: multerOutcome

text \<open>
  The default error handler answers with the status of the error when that is a number
  from 400 to 599 and with 500 otherwise; its body is an error page.
\<close>

definition defaultErrorHandler :: "nat option \<Rightarrow> response" where
  "defaultErrorHandler errStatus =
     \<lparr>status = (case errStatus of
                  None \<Rightarrow> 500
                | Some s \<Rightarrow> if 400 \<le> s \<and> s < 600 then s else 500),
      body = ErrorPage\<rparr>"

definition postUpload :: "services \<Rightarrow> httpRequest \<Rightarrow> world \<Rightarrow> response \<times> world" where
  "postUpload sv req w =
     (case jsonBody req of
        JsonError s \<Rightarrow> (defaultErrorHandler (Some s), w)
      | JsonPassed \<Rightarrow>
          (let currentUser = decodeIDToken sv (authorization req)
           in case multipart req of
                MulterError \<Rightarrow> (defaultErrorHandler None, w)
              | MulterPassed file \<Rightarrow> uploadHandler sv currentUser file w))"

definition getHistory :: "services \<Rightarrow> httpRequest \<Rightarrow> world \<Rightarrow> response \<times> world" where
  "getHistory sv req w =
     (case jsonBody req of
        JsonError s \<Rightarrow> (defaultErrorHandler (Some s), w)
      | JsonPassed \<Rightarrow> historyHandler sv (decodeIDToken sv (authorization req)) w)"

definition storageCalls :: "world \<Rightarrow> nat" where
  "storageCalls w = length (filter (\<lambda>c. case c of ChatCompletion _ _ \<Rightarrow> False | _ \<Rightarrow> True) (traffic w))"

subsection \<open>A CSV reader to run the routes on concrete files\<close>

text \<open>
  Modelled from the spec: the CSV normaliser is the \<open>csv-parser\<close> package, whose code is
  not part of the repository; the handlers above take it as the parameter \<open>csv\<close>, and
  every property that holds for all files is stated for an arbitrary \<open>csv\<close>. This reader
  stands in for it on well-formed plain files only: lines end with LF or CR LF, no line
  is empty, cells are separated by commas and are not quoted, the first line holds the
  headers, each of which goes through \<open>mapHeaders\<close>, every other line has as many cells
  as there are headers, and a cell is stored under the header of its column. Zero data
  lines give zero rows. On any other file (a line with more or fewer cells than headers,
  quoted cells, empty lines, a bare CR) the reader is not meant to agree with the
  package, and no property below runs it on such a file.
\<close>

fun splitOn :: "char \<Rightarrow> string \<Rightarrow> string list" where
  "splitOn sep [] = [[]]"
| "splitOn sep (c # cs) =
     (if c = sep then [] # splitOn sep cs
      else (case splitOn sep cs of [] \<Rightarrow> [[c]] | piece # pieces \<Rightarrow> (c # piece) # pieces))"

definition stripCR :: "string \<Rightarrow> string" where
  "stripCR l = (if l \<noteq> [] \<and> last l = CHR 0x0D then butlast l else l)"

definition csvLines :: "string \<Rightarrow> string list" where
  "csvLines bytes =
     (let pieces = splitOn (CHR 0x0A) bytes;
          pieces = (if last pieces = [] then butlast pieces else pieces)
      in map stripCR pieces)"

definition csvRow :: "string list \<Rightarrow> string list \<Rightarrow> row" where
  "csvRow headers cells = fold (\<lambda>(h, c) r. r(h \<mapsto> c)) (zip headers cells) Map.empty"

definition csvParser :: "(string \<Rightarrow> string) \<Rightarrow> string \<Rightarrow> row list option" where
  "csvParser mapH bytes =
     (case csvLines bytes of
        [] \<Rightarrow> Some []
      | header # dataLines \<Rightarrow>
          Some (map (\<lambda>l. csvRow (map mapH (splitOn (CHR '','') header)) (splitOn (CHR '','') l)) dataLines))"

subsection \<open>Concrete files and services\<close>

text \<open>The example file of the README.\<close>

definition readmeCsv :: string where
  "readmeCsv =
     ''product,quantity,price'' @ [CHR 0x0A] @
     ''Recycled A4 Paper,100,25.00'' @ [CHR 0x0A] @
     ''Disposable Plastic Cups,200,15.00'' @ [CHR 0x0A] @
     ''LED Light Bulbs,50,120.00'' @ [CHR 0x0A]"

text \<open>A file whose product column is headed \<open>Item\<close>, which the README allows.\<close>

definition itemCsv :: string where
  "itemCsv =
     ''Item,Quantity'' @ [CHR 0x0A] @
     ''Recycled A4 Paper,100'' @ [CHR 0x0A]"

text \<open>A file that has a column named \<open>Suggestion\<close> of its own.\<close>

definition suggestionCsv :: string where
  "suggestionCsv =
     ''Product,Suggestion'' @ [CHR 0x0A] @
     ''LED Light Bulbs,keep buying these'' @ [CHR 0x0A]"

text \<open>A file with two low-scoring rows.\<close>

definition plasticCsv :: string where
  "plasticCsv =
     ''product'' @ [CHR 0x0A] @
     ''Disposable Plastic Cups'' @ [CHR 0x0A] @
     ''Plastic Bags'' @ [CHR 0x0A]"

definition alice :: decodedToken where
  "alice = \<lparr>uid = ''alice''\<rparr>"

text \<open>Services that all answer: one valid token, every completion and the insert succeed.\<close>

definition demoServices :: services where
  "demoServices =
     \<lparr>verifyIdToken = (\<lambda>t. if t = ''token-of-alice'' then Some alice else None),
      csv = csvParser,
      chatCompletion = (\<lambda>k prompt n. Some '' Mostly fine. ''),
      collectionAdd = Some (''doc1'', 1000),
      collectionGetFails = False\<rparr>"

text \<open>The same services, except that completion request 1 of the upload is rejected.\<close>

definition oneRejection :: services where
  "oneRejection =
     demoServices\<lparr>chatCompletion := (\<lambda>k prompt n. if k = 1 then None else Some '' Mostly fine. '')\<rparr>"

definition emptyWorld :: world where
  "emptyWorld = \<lparr>analyses = [], traffic = []\<rparr>"

text \<open>A world that holds two analyses of one owner and one of another.\<close>

definition emptyResult :: "string \<Rightarrow> analysisResult" where
  "emptyResult name = \<lparr>fileName = name, averageScore = 0, summary = ''Nothing bought.'', items = []\<rparr>"

definition threeDocs :: world where
  "threeDocs =
     \<lparr>analyses =
        [\<lparr>docId = ''d1'', result = emptyResult ''january.csv'', userId = ''alice'', createdAt = 2000500000\<rparr>,
         \<lparr>docId = ''d2'', result = emptyResult ''bob.csv'', userId = ''bob'', createdAt = 2500000000\<rparr>,
         \<lparr>docId = ''d3'', result = emptyResult ''february.csv'', userId = ''alice'', createdAt = 3000000000\<rparr>],
      traffic = []\<rparr>"

section \<open>Properties\<close>

subsection \<open>The string operations agree with their library counterparts\<close>

lemma startsWith_prefix: "startsWith s p \<longleftrightarrow> prefix p s"
  by (induction s p rule: startsWith.induct) auto

lemma includes_sublist: "includesStr s p \<longleftrightarrow> sublist p s"
  by (induction s) (auto simp: startsWith_prefix sublist_Cons_right)

subsection \<open>Aggregation\<close>

lemma foldl_greenScore:
  "foldl (\<lambda>acc item. acc + greenScore item) a xs = a + sum_list (map greenScore xs)"
  by (induction xs arbitrary: a) auto

lemma floor_half_up:
  fixes t :: int and n :: nat
  assumes "0 < n"
  shows "\<lfloor>(of_int t / of_nat n + 1 / 2 :: 'a :: {floor_ceiling})\<rfloor> = (2 * t + int n) div (2 * int n)"
proof -
  have "(of_int t / of_nat n + 1 / 2 :: 'a) = of_int (2 * t + int n) / of_int (2 * int n)"
    using assms by (simp add: field_simps)
  then show ?thesis
    by (simp only: floor_divide_of_int_eq)
qed

lemma computeAverageScore_div:
  "computeAverageScore results =
     (if results = [] then 0
      else (2 * sum_list (map greenScore results) + int (length results)) div (2 * int (length results)))"
  using floor_half_up [where 'a = rat]
  by (simp add: computeAverageScore_def Math_round_def foldl_greenScore Let_def)

lemma computeAverageScore_round:
  assumes "results \<noteq> []"
  shows "computeAverageScore results =
           round (real_of_int (sum_list (map greenScore results)) / real (length results))"
  using assms floor_half_up [where 'a = real, of "length results" "sum_list (map greenScore results)"]
  by (simp add: computeAverageScore_div round_def)

subsection \<open>Enrichment\<close>

lemma scoreRow_simps [simp]:
  "greenScore (scoreRow r) = calculateGreenScore (Some r)"
  "props (scoreRow r) k = (if k = ''greenScore'' then None else r k)"
  by (simp_all add: scoreRow_def)

lemma setSuggestion_simps [simp]:
  "greenScore (setSuggestion t item) = greenScore item"
  "props (setSuggestion t item) k = (if k = ''suggestion'' then Some t else props item k)"
  by (simp_all add: setSuggestion_def)

lemma attach_length [simp]: "length (attachSuggestions ts xs) = length xs"
  by (induction xs arbitrary: ts) (auto split: list.splits)

lemma attach_greenScore [simp]: "map greenScore (attachSuggestions ts xs) = map greenScore xs"
  by (induction xs arbitrary: ts) (auto split: list.splits)

lemma attach_high:
  "i < length xs \<Longrightarrow> \<not> greenScore (xs ! i) < 40 \<Longrightarrow> attachSuggestions ts xs ! i = xs ! i"
proof (induction xs arbitrary: ts i)
  case Nil
  then show ?case by simp
next
  case (Cons x xs)
  then show ?case by (cases i) (auto split: list.splits)
qed

lemma attach_other_props:
  "k \<noteq> ''suggestion'' \<Longrightarrow>
   map (\<lambda>item. props item k) (attachSuggestions ts xs) = map (\<lambda>item. props item k) xs"
  by (induction xs arbitrary: ts) (auto split: list.splits)

lemma attach_low:
  "length ts = length (filter (\<lambda>item. greenScore item < 40) xs) \<Longrightarrow>
   filter (\<lambda>item. greenScore item < 40) (attachSuggestions ts xs) =
     map2 setSuggestion ts (filter (\<lambda>item. greenScore item < 40) xs)"
proof (induction xs arbitrary: ts)
  case Nil
  then show ?case by simp
next
  case (Cons x xs)
  then show ?case by (cases ts) auto
qed

lemma promiseAll_Some: "promiseAll ps = Some xs \<longleftrightarrow> ps = map Some xs"
  by (induction ps arbitrary: xs rule: promiseAll.induct) auto

lemma promiseAll_None: "promiseAll ps = None \<longleftrightarrow> None \<in> set ps"
  by (induction ps rule: promiseAll.induct) auto

lemma alternativeReplies_length [simp]: "length (alternativeReplies sv k xs) = length xs"
  by (induction xs arbitrary: k) auto

lemma alternativeReplies_nth:
  "i < length xs \<Longrightarrow>
   alternativeReplies sv k xs ! i = chatCompletion sv (k + i) (alternativePrompt (xs ! i)) 60"
proof (induction xs arbitrary: k i)
  case Nil
  then show ?case by simp
next
  case (Cons x xs)
  then show ?case by (cases i) auto
qed

subsection \<open>The shape of a successful upload\<close>

lemma onEnd_200:
  assumes "status (fst (onEnd sv user f results w)) = 200"
  shows "\<exists>content contents newId ts.
           chatCompletion sv 0 (summaryPrompt results) 100 = Some content \<and>
           promiseAll (alternativeReplies sv 1 (filter (\<lambda>item. greenScore item < 40) results)) = Some contents \<and>
           collectionAdd sv = Some (newId, ts) \<and>
           fst (onEnd sv user f results w) =
             \<lparr>status = 200,
              body = ResultJson
                \<lparr>fileName = originalname f,
                 averageScore = computeAverageScore (attachSuggestions (map trim contents) results),
                 summary = trim content,
                 items = attachSuggestions (map trim contents) results\<rparr>\<rparr>"
  using assms
  by (auto simp: onEnd_def Let_def aiFailure_def split: option.splits prod.splits)

lemma uploadHandler_200:
  assumes "status (fst (uploadHandler sv cu fl w)) = 200"
  shows "\<exists>user f rows content contents newId ts.
           cu = Some user \<and> fl = Some f \<and> csv sv mapHeaders (buffer f) = Some rows \<and>
           chatCompletion sv 0 (summaryPrompt (map scoreRow rows)) 100 = Some content \<and>
           promiseAll (alternativeReplies sv 1 (filter (\<lambda>item. greenScore item < 40) (map scoreRow rows))) = Some contents \<and>
           collectionAdd sv = Some (newId, ts) \<and>
           fst (uploadHandler sv cu fl w) =
             \<lparr>status = 200,
              body = ResultJson
                \<lparr>fileName = originalname f,
                 averageScore = computeAverageScore (attachSuggestions (map trim contents) (map scoreRow rows)),
                 summary = trim content,
                 items = attachSuggestions (map trim contents) (map scoreRow rows)\<rparr>\<rparr>"
proof -
  from assms obtain user f rows where
    a: "cu = Some user" "fl = Some f" "csv sv mapHeaders (buffer f) = Some rows"
    by (auto simp: uploadHandler_def split: option.splits)
  then have u: "uploadHandler sv cu fl w = onEnd sv user f (map scoreRow rows) w"
    by (simp add: uploadHandler_def)
  with assms have "status (fst (onEnd sv user f (map scoreRow rows) w)) = 200" by simp
  from onEnd_200 [OF this] a u show ?thesis by auto
qed

subsection \<open>The scoring function\<close>

lemma score_None: "calculateGreenScore None = 0"
  by (simp add: calculateGreenScore_def)

lemma score_bounds: "0 \<le> calculateGreenScore item \<and> calculateGreenScore item \<le> 100"
proof (cases item)
  case None
  then show ?thesis by (simp add: score_None)
next
  case (Some r)
  show ?thesis
  proof (cases "r ''product''")
    case None
    with Some show ?thesis by (simp add: calculateGreenScore_def)
  next
    case (Some product)
    with \<open>item = Some r\<close> show ?thesis
      by (cases "product = []") (simp_all add: calculateGreenScore_def Let_def split del: if_split)
  qed
qed

lemma score_no_product:
  "r ''product'' = None \<or> r ''product'' = Some [] \<Longrightarrow> calculateGreenScore (Some r) = 0"
  by (auto simp: calculateGreenScore_def)

text \<open>
  C5. For every row, present or absent, with or without a product, the score is an integer
  between 0 and 100; an absent row scores 0, and so does every row whose product is missing
  or empty, whatever its other columns hold.
\<close>

theorem score_in_range_and_zero_without_product:
  "0 \<le> calculateGreenScore item \<and> calculateGreenScore item \<le> 100 \<and>
   calculateGreenScore None = 0 \<and>
   (\<forall>r. r ''product'' = None \<or> r ''product'' = Some [] \<longrightarrow> calculateGreenScore (Some r) = 0)"
  using score_bounds [of item] score_no_product score_None
  by blast

theorem score_in_range_and_zero_without_product_witness:
  "calculateGreenScore
     (Some [''product'' \<mapsto> ''Organic recycled compostable reusable local LED lamp'']) \<le> 100 \<and>
   [''supplier'' \<mapsto> ''Recycled Goods Ltd'', ''qty'' \<mapsto> ''4''] ''product'' = None \<and>
   calculateGreenScore (Some [''supplier'' \<mapsto> ''Recycled Goods Ltd'', ''qty'' \<mapsto> ''4'']) = 0"
  using score_in_range_and_zero_without_product
    [of "Some [''product'' \<mapsto> ''Organic recycled compostable reusable local LED lamp'']"]
  by simp

text \<open>
  C10. The score depends on the product value only: two rows with the same product value
  get the same score, whatever else they hold.
\<close>

theorem score_depends_on_product_only:
  "r1 ''product'' = r2 ''product'' \<Longrightarrow>
   calculateGreenScore (Some r1) = calculateGreenScore (Some r2)"
  by (simp add: calculateGreenScore_def split del: if_split)

theorem score_depends_on_product_only_witness:
  "[''product'' \<mapsto> ''LED Light Bulbs'', ''price'' \<mapsto> ''120.00''] ''product'' =
     [''product'' \<mapsto> ''LED Light Bulbs'', ''supplier'' \<mapsto> ''Plastic Disposables Inc''] ''product'' \<and>
   calculateGreenScore (Some [''product'' \<mapsto> ''LED Light Bulbs'', ''price'' \<mapsto> ''120.00'']) =
     calculateGreenScore
       (Some [''product'' \<mapsto> ''LED Light Bulbs'', ''supplier'' \<mapsto> ''Plastic Disposables Inc''])"
  using score_depends_on_product_only
    [of "[''product'' \<mapsto> ''LED Light Bulbs'', ''price'' \<mapsto> ''120.00'']"
        "[''product'' \<mapsto> ''LED Light Bulbs'', ''supplier'' \<mapsto> ''Plastic Disposables Inc'']"]
  by simp

subsection \<open>The README's example file\<close>

lemma readme_scores:
  "map_option (map (\<lambda>r. calculateGreenScore (Some r))) (csvParser mapHeaders readmeCsv) = Some [80, 0, 60]"
  by code_simp

lemma readme_products:
  "map_option (map (\<lambda>r. r ''product'')) (csvParser mapHeaders readmeCsv) =
     Some [Some ''Recycled A4 Paper'', Some ''Disposable Plastic Cups'', Some ''LED Light Bulbs'']"
  by code_simp

lemma demo_readme_200:
  "status (fst (uploadHandler demoServices (Some alice)
      (Some \<lparr>originalname = ''order.csv'', buffer = readmeCsv\<rparr>) emptyWorld)) = 200"
  by code_simp

text \<open>
  C1, as stated, does not hold: \<open>recycled\<close> ends in \<open>led\<close>, so a product that
  contains \<open>recycled\<close> also gets the 10 points of \<open>led\<close>, and \<open>Recycled Paper\<close> scores
  80, not 70.
\<close>

theorem recycled_paper_counterexample:
  "calculateGreenScore (Some [''product'' \<mapsto> ''Recycled Paper'']) \<noteq> 70"
  by code_simp

text \<open>
  C1, amended. The row whose product is \<open>Recycled Paper\<close> scores exactly 80 (50, plus 20
  for \<open>recycled\<close>, plus 10 for the \<open>led\<close> inside \<open>recycled\<close>); and every successful
  upload of the README's three-row file returns the three items in input order with the
  scores 80, 0 and 60 and the average score 47.
\<close>

theorem readme_scenario:
  "calculateGreenScore (Some [''product'' \<mapsto> ''Recycled Paper'']) = 80 \<and>
   (csv sv mapHeaders readmeCsv = csvParser mapHeaders readmeCsv \<longrightarrow>
    status (fst (uploadHandler sv cu (Some \<lparr>originalname = name, buffer = readmeCsv\<rparr>) w)) = 200 \<longrightarrow>
    (\<exists>r. resultOf (fst (uploadHandler sv cu (Some \<lparr>originalname = name, buffer = readmeCsv\<rparr>) w)) = Some r \<and>
         map (\<lambda>item. props item ''product'') (items r) =
           [Some ''Recycled A4 Paper'', Some ''Disposable Plastic Cups'', Some ''LED Light Bulbs''] \<and>
         map greenScore (items r) = [80, 0, 60] \<and>
         averageScore r = 47))"
proof (intro conjI impI)
  show "calculateGreenScore (Some [''product'' \<mapsto> ''Recycled Paper'']) = 80"
    by code_simp
next
  let ?up = "uploadHandler sv cu (Some \<lparr>originalname = name, buffer = readmeCsv\<rparr>) w"
  assume parser: "csv sv mapHeaders readmeCsv = csvParser mapHeaders readmeCsv"
    and ok: "status (fst ?up) = 200"
  from uploadHandler_200 [OF ok] obtain rows content contents where
    rows: "csv sv mapHeaders readmeCsv = Some rows" and
    res: "fst ?up =
       \<lparr>status = 200,
        body = ResultJson
          \<lparr>fileName = name,
           averageScore = computeAverageScore (attachSuggestions (map trim contents) (map scoreRow rows)),
           summary = trim content,
           items = attachSuggestions (map trim contents) (map scoreRow rows)\<rparr>\<rparr>"
    by auto
  let ?items = "attachSuggestions (map trim contents) (map scoreRow rows)"
  from rows parser readme_scores
  have rs: "map (\<lambda>r. calculateGreenScore (Some r)) rows = [80, 0, 60]"
    by simp
  then have scores: "map greenScore ?items = [80, 0, 60]"
    by (simp add: o_def)
  from rows parser readme_products
  have products: "map (\<lambda>item. props item ''product'') ?items =
      [Some ''Recycled A4 Paper'', Some ''Disposable Plastic Cups'', Some ''LED Light Bulbs'']"
    by (simp add: attach_other_props o_def)
  from rs have len: "length rows = 3"
    by (auto dest: arg_cong [where f = length])
  then have "?items \<noteq> []"
    by (metis attach_length length_map list.size(3) zero_neq_numeral)
  with rs len have "computeAverageScore ?items = 47"
    by (simp add: computeAverageScore_div o_def)
  with res scores products
  show "\<exists>r. resultOf (fst ?up) = Some r \<and>
         map (\<lambda>item. props item ''product'') (items r) =
           [Some ''Recycled A4 Paper'', Some ''Disposable Plastic Cups'', Some ''LED Light Bulbs''] \<and>
         map greenScore (items r) = [80, 0, 60] \<and>
         averageScore r = 47"
    by simp
qed

theorem readme_scenario_witness:
  "csv demoServices mapHeaders readmeCsv = csvParser mapHeaders readmeCsv \<and>
   status (fst (uploadHandler demoServices (Some alice)
      (Some \<lparr>originalname = ''order.csv'', buffer = readmeCsv\<rparr>) emptyWorld)) = 200 \<and>
   (\<exists>r. resultOf (fst (uploadHandler demoServices (Some alice)
            (Some \<lparr>originalname = ''order.csv'', buffer = readmeCsv\<rparr>) emptyWorld)) = Some r \<and>
        map greenScore (items r) = [80, 0, 60] \<and> averageScore r = 47)"
proof -
  have p: "csv demoServices mapHeaders readmeCsv = csvParser mapHeaders readmeCsv"
    by (simp add: demoServices_def)
  from readme_scenario [of demoServices "Some alice" "''order.csv''" emptyWorld,
      THEN conjunct2, rule_format, OF p demo_readme_200]
  show ?thesis using p demo_readme_200 by auto
qed

subsection \<open>A product column headed \<open>Item\<close>\<close>

text \<open>
  C3. The README accepts a product column named \<open>item\<close> or \<open>Item\<close>, but the server
  reads the key \<open>product\<close> only: the row of such a file keeps its cell under \<open>item\<close>, has
  no \<open>product\<close>, and falls into the missing-product guard with score 0.
\<close>

theorem item_header_scores_zero:
  "map_option (map (\<lambda>r. (r ''item'', r ''product'', calculateGreenScore (Some r))))
     (csvParser mapHeaders itemCsv) = Some [(Some ''Recycled A4 Paper'', None, 0)]"
  by code_simp


subsection \<open>The average score\<close>

lemma average_example:
  "computeAverageScore
     [\<lparr>props = Map.empty, greenScore = 80\<rparr>, \<lparr>props = Map.empty, greenScore = 0\<rparr>,
      \<lparr>props = Map.empty, greenScore = 60\<rparr>] = 47"
  by (simp add: computeAverageScore_div)

text \<open>
  C6. For every list of scored rows the average score is the arithmetic mean of the rows'
  scores rounded to the nearest integer (a tie goes up), so it is within one half of the
  mean; it is 0 for the empty list, where nothing is divided; and the average score of
  every successful upload is this value for the items it returns.
\<close>

theorem average_is_rounded_mean:
  "computeAverageScore [] = 0 \<and>
   (results \<noteq> [] \<longrightarrow>
      computeAverageScore results =
        round (real_of_int (sum_list (map greenScore results)) / real (length results)) \<and>
      \<bar>real_of_int (computeAverageScore results) -
         real_of_int (sum_list (map greenScore results)) / real (length results)\<bar> \<le> 1 / 2) \<and>
   (status (fst (uploadHandler sv cu fl w)) = 200 \<longrightarrow>
      (\<exists>r. resultOf (fst (uploadHandler sv cu fl w)) = Some r \<and>
           averageScore r = computeAverageScore (items r)))"
proof (intro conjI impI)
  show "computeAverageScore [] = 0"
    by (simp add: computeAverageScore_def)
next
  assume "results \<noteq> []"
  then show "computeAverageScore results =
      round (real_of_int (sum_list (map greenScore results)) / real (length results))"
    by (rule computeAverageScore_round)
  then show "\<bar>real_of_int (computeAverageScore results) -
      real_of_int (sum_list (map greenScore results)) / real (length results)\<bar> \<le> 1 / 2"
    using of_int_round_abs_le [of "real_of_int (sum_list (map greenScore results)) / real (length results)"]
    by simp
next
  assume "status (fst (uploadHandler sv cu fl w)) = 200"
  from uploadHandler_200 [OF this]
  show "\<exists>r. resultOf (fst (uploadHandler sv cu fl w)) = Some r \<and>
           averageScore r = computeAverageScore (items r)"
    by auto
qed

theorem average_is_rounded_mean_witness:
  "[\<lparr>props = Map.empty, greenScore = 80\<rparr>, \<lparr>props = Map.empty, greenScore = 0\<rparr>,
    \<lparr>props = Map.empty, greenScore = 60\<rparr>] \<noteq> [] \<and>
   round (real_of_int (sum_list (map greenScore
      [\<lparr>props = Map.empty, greenScore = 80\<rparr>, \<lparr>props = Map.empty, greenScore = 0\<rparr>,
       \<lparr>props = Map.empty, greenScore = 60\<rparr>])) / real (length
      [\<lparr>props = Map.empty, greenScore = 80\<rparr>, \<lparr>props = Map.empty, greenScore = 0\<rparr>,
       \<lparr>props = Map.empty, greenScore = (60::int)\<rparr>])) = 47 \<and>
   status (fst (uploadHandler demoServices (Some alice)
      (Some \<lparr>originalname = ''order.csv'', buffer = readmeCsv\<rparr>) emptyWorld)) = 200 \<and>
   (\<exists>r. resultOf (fst (uploadHandler demoServices (Some alice)
            (Some \<lparr>originalname = ''order.csv'', buffer = readmeCsv\<rparr>) emptyWorld)) = Some r \<and>
        averageScore r = computeAverageScore (items r))"
  using average_is_rounded_mean
    [of "[\<lparr>props = Map.empty, greenScore = 80\<rparr>, \<lparr>props = Map.empty, greenScore = 0\<rparr>,
          \<lparr>props = Map.empty, greenScore = 60\<rparr>]"
        demoServices "Some alice"
        "Some \<lparr>originalname = ''order.csv'', buffer = readmeCsv\<rparr>" emptyWorld]
    demo_readme_200 average_example
  by simp

subsection \<open>The file check\<close>

lemma uploadHandler_not_400:
  "status (fst (uploadHandler sv cu (Some f) w)) \<noteq> 400"
  by (auto simp: uploadHandler_def onEnd_def Let_def aiFailure_def split: option.splits prod.splits)

text \<open>
  C4, as stated, does not hold for a file that is present but empty: the upload of
  zero bytes by a signed-in caller is parsed as zero rows, goes through enrichment (one
  completion request) and storage (one insert) and is answered with 200 and no items.
\<close>

theorem empty_file_counterexample:
  "status (fst (postUpload demoServices
      \<lparr>jsonBody = JsonPassed, authorization = Some ''Bearer token-of-alice'',
       multipart = MulterPassed (Some \<lparr>originalname = ''empty.csv'', buffer = []\<rparr>)\<rparr> emptyWorld)) = 200 \<and>
   map_option (length \<circ> items) (resultOf (fst (postUpload demoServices
      \<lparr>jsonBody = JsonPassed, authorization = Some ''Bearer token-of-alice'',
       multipart = MulterPassed (Some \<lparr>originalname = ''empty.csv'', buffer = []\<rparr>)\<rparr> emptyWorld))) = Some 0 \<and>
   length (traffic (snd (postUpload demoServices
      \<lparr>jsonBody = JsonPassed, authorization = Some ''Bearer token-of-alice'',
       multipart = MulterPassed (Some \<lparr>originalname = ''empty.csv'', buffer = []\<rparr>)\<rparr> emptyWorld))) = 2 \<and>
   length (analyses (snd (postUpload demoServices
      \<lparr>jsonBody = JsonPassed, authorization = Some ''Bearer token-of-alice'',
       multipart = MulterPassed (Some \<lparr>originalname = ''empty.csv'', buffer = []\<rparr>)\<rparr> emptyWorld))) = 1"
  by code_simp

text \<open>
  C4, amended. For a signed-in caller the upload fails with 400 whenever the file is
  absent, and then nothing is parsed, scored, enriched or stored (the world is as before);
  a file that is present, empty or not, is never answered with 400.
\<close>

theorem missing_file_is_bad_request:
  "uploadHandler sv (Some user) None w =
     (\<lparr>status = 400, body = ErrorJson ''No file uploaded.''\<rparr>, w) \<and>
   status (fst (uploadHandler sv cu (Some f) w)) \<noteq> 400"
  using uploadHandler_not_400 by (simp add: uploadHandler_def)

theorem missing_file_is_bad_request_witness:
  "postUpload demoServices
     \<lparr>jsonBody = JsonPassed, authorization = Some ''Bearer token-of-alice'',
      multipart = MulterPassed None\<rparr> emptyWorld =
     (\<lparr>status = 400, body = ErrorJson ''No file uploaded.''\<rparr>, emptyWorld)"
proof -
  have "decodeIDToken demoServices (Some ''Bearer token-of-alice'') = Some alice"
    by code_simp
  with missing_file_is_bad_request [of demoServices alice emptyWorld]
  show ?thesis by (simp add: postUpload_def)
qed

subsection \<open>Requests without a verified caller\<close>

lemma decodeIDToken_None_iff:
  "decodeIDToken sv a = None \<longleftrightarrow>
     a = None \<or>
     (\<exists>h. a = Some h \<and>
        (\<not> startsWith h ''Bearer '' \<or>
         verifyIdToken sv (beforeSep ''Bearer '' (drop (length ''Bearer '') h)) = None))"
  by (auto simp: decodeIDToken_def Let_def split: option.splits)

lemma unverified_upload:
  assumes "decodeIDToken sv (authorization req) = None"
  shows "postUpload sv req w =
           (case jsonBody req of
              JsonError s \<Rightarrow> (defaultErrorHandler (Some s), w)
            | JsonPassed \<Rightarrow>
                (case multipart req of
                   MulterError \<Rightarrow> (defaultErrorHandler None, w)
                 | MulterPassed file \<Rightarrow>
                     (\<lparr>status = 401,
                       body = ErrorJson ''Unauthorized. You must be logged in to upload.''\<rparr>, w)))"
  using assms
  by (simp add: postUpload_def uploadHandler_def split: jsonOutcome.split multerOutcome.split)

lemma unverified_history:
  assumes "decodeIDToken sv (authorization req) = None"
  shows "getHistory sv req w =
           (case jsonBody req of
              JsonError s \<Rightarrow> (defaultErrorHandler (Some s), w)
            | JsonPassed \<Rightarrow>
                (\<lparr>status = 401,
                  body = ErrorJson ''Unauthorized. You must be logged in to view history.''\<rparr>, w))"
  using assms
  by (simp add: getHistory_def historyHandler_def split: jsonOutcome.split)

text \<open>
  C8, as stated, does not hold for an upload whose form \<open>upload.single('file')\<close> rejects:
  that middleware runs before the handler's caller check, so the request of a caller
  without any identity is answered with 500 by the default error handler, not with 401.
\<close>

theorem multer_error_counterexample:
  "decodeIDToken demoServices None = None \<and>
   fst (postUpload demoServices
      \<lparr>jsonBody = JsonPassed, authorization = None, multipart = MulterError\<rparr> emptyWorld) =
     \<lparr>status = 500, body = ErrorPage\<rparr>"
  by (simp add: decodeIDToken_def postUpload_def defaultErrorHandler_def)

text \<open>
  C8, amended. Whenever the middleware leaves the request without a verified caller (no
  \<open>Authorization\<close> header, no \<open>Bearer\<close> prefix, or a token that does not verify), the
  upload and the history route leave the world as it was (no storage read or write, no
  completion request) and return neither an analysis nor a history. The reply is 401 for
  every request that reaches its handler: every history request that \<open>express.json()\<close>
  passes, and every upload that \<open>express.json()\<close> and \<open>upload.single('file')\<close> pass. A
  request that one of the two rejects is answered by the default error handler before
  the caller check: with 500 after \<open>upload.single('file')\<close>, with the status of the
  error after \<open>express.json()\<close>.
\<close>

theorem unauthorized_touches_nothing:
  assumes "decodeIDToken sv (authorization req) = None"
  shows "snd (postUpload sv req w) = w \<and>
         snd (getHistory sv req w) = w \<and>
         storageCalls (snd (postUpload sv req w)) = storageCalls w \<and>
         storageCalls (snd (getHistory sv req w)) = storageCalls w \<and>
         resultOf (fst (postUpload sv req w)) = None \<and>
         historyOf (fst (getHistory sv req w)) = None \<and>
         (jsonBody req = JsonPassed \<longrightarrow>
            fst (getHistory sv req w) =
              \<lparr>status = 401,
               body = ErrorJson ''Unauthorized. You must be logged in to view history.''\<rparr>) \<and>
         (jsonBody req = JsonPassed \<longrightarrow>
            (\<forall>file. multipart req = MulterPassed file \<longrightarrow>
               fst (postUpload sv req w) =
                 \<lparr>status = 401,
                  body = ErrorJson ''Unauthorized. You must be logged in to upload.''\<rparr>)) \<and>
         (jsonBody req = JsonPassed \<longrightarrow> multipart req = MulterError \<longrightarrow>
            fst (postUpload sv req w) = \<lparr>status = 500, body = ErrorPage\<rparr>) \<and>
         (\<forall>s. jsonBody req = JsonError s \<longrightarrow>
            fst (postUpload sv req w) = defaultErrorHandler (Some s) \<and>
            fst (getHistory sv req w) = defaultErrorHandler (Some s))"
proof -
  note u = unverified_upload [OF assms, of w]
  note h = unverified_history [OF assms, of w]
  show ?thesis
  proof (cases "jsonBody req")
    case JsonPassed
    show ?thesis
    proof (cases "multipart req")
      case (MulterPassed fl)
      with JsonPassed u h show ?thesis by simp
    next
      case MulterError
      with JsonPassed u h show ?thesis by (simp add: defaultErrorHandler_def)
    qed
  next
    case (JsonError s)
    with u h show ?thesis by (simp add: defaultErrorHandler_def)
  qed
qed

theorem unauthorized_touches_nothing_witness:
  "decodeIDToken demoServices (Some ''Bearer token-of-mallory'') = None \<and>
   postUpload demoServices
     \<lparr>jsonBody = JsonPassed, authorization = Some ''Bearer token-of-mallory'',
      multipart = MulterPassed (Some \<lparr>originalname = ''order.csv'', buffer = readmeCsv\<rparr>)\<rparr>
     emptyWorld =
     (\<lparr>status = 401, body = ErrorJson ''Unauthorized. You must be logged in to upload.''\<rparr>,
      emptyWorld) \<and>
   getHistory demoServices
     \<lparr>jsonBody = JsonPassed, authorization = Some ''Bearer token-of-mallory'',
      multipart = MulterPassed None\<rparr> emptyWorld =
     (\<lparr>status = 401, body = ErrorJson ''Unauthorized. You must be logged in to view history.''\<rparr>,
      emptyWorld) \<and>
   postUpload demoServices
     \<lparr>jsonBody = JsonPassed, authorization = Some ''Bearer token-of-mallory'',
      multipart = MulterError\<rparr> emptyWorld =
     (\<lparr>status = 500, body = ErrorPage\<rparr>, emptyWorld)"
proof -
  have n: "decodeIDToken demoServices (Some ''Bearer token-of-mallory'') = None"
    by code_simp
  let ?up = "\<lparr>jsonBody = JsonPassed, authorization = Some ''Bearer token-of-mallory'',
      multipart = MulterPassed (Some \<lparr>originalname = ''order.csv'', buffer = readmeCsv\<rparr>)\<rparr>"
  let ?hi = "\<lparr>jsonBody = JsonPassed, authorization = Some ''Bearer token-of-mallory'',
      multipart = MulterPassed None\<rparr>"
  let ?bad = "\<lparr>jsonBody = JsonPassed, authorization = Some ''Bearer token-of-mallory'',
      multipart = MulterError\<rparr>"
  have a: "decodeIDToken demoServices (authorization ?up) = None"
    "decodeIDToken demoServices (authorization ?hi) = None"
    "decodeIDToken demoServices (authorization ?bad) = None"
    using n by simp_all
  from unauthorized_touches_nothing [OF a(1), of emptyWorld]
  have 1: "postUpload demoServices ?up emptyWorld =
      (\<lparr>status = 401, body = ErrorJson ''Unauthorized. You must be logged in to upload.''\<rparr>, emptyWorld)"
    by (simp add: prod_eq_iff)
  from unauthorized_touches_nothing [OF a(2), of emptyWorld]
  have 2: "getHistory demoServices ?hi emptyWorld =
      (\<lparr>status = 401, body = ErrorJson ''Unauthorized. You must be logged in to view history.''\<rparr>, emptyWorld)"
    by (simp add: prod_eq_iff)
  from unauthorized_touches_nothing [OF a(3), of emptyWorld]
  have 3: "postUpload demoServices ?bad emptyWorld = (\<lparr>status = 500, body = ErrorPage\<rparr>, emptyWorld)"
    by (simp add: prod_eq_iff)
  from n 1 2 3 show ?thesis by simp
qed

subsection \<open>History\<close>

lemma queryAnalyses_mset:
  "mset (queryAnalyses docs owner) = mset (filter (\<lambda>d. userId d = owner) docs)"
  by (simp add: queryAnalyses_def)

lemma queryAnalyses_sorted: "sorted (rev (map createdAt (queryAnalyses docs owner)))"
  by (simp add: queryAnalyses_def rev_map)

lemma queryAnalyses_owner: "d \<in> set (queryAnalyses docs owner) \<Longrightarrow> userId d = owner"
  by (simp add: queryAnalyses_def)

lemma rounded_instants_sorted:
  assumes "sorted (rev (map createdAt docs))"
  shows "sorted (rev (map (\<lambda>d. (createdAt d + 500000) div 1000000) docs))"
proof -
  have "rev (map (\<lambda>d. (createdAt d + 500000) div 1000000) docs) =
      map (\<lambda>n. (n + 500000) div 1000000) (rev (map createdAt docs))"
    by (simp add: rev_map)
  moreover have "sorted (map (\<lambda>n. (n + 500000) div 1000000) (rev (map createdAt docs)))"
    using assms by (simp add: sorted_map sorted_wrt_mono_rel [of _ "(\<le>)"] div_le_mono)
  ultimately show ?thesis by simp
qed

lemma historyHandler_answered:
  assumes "\<not> collectionGetFails sv"
  shows "fst (historyHandler sv (Some user) w) =
           \<lparr>status = 200,
            body = HistoryJson
              (map (\<lambda>d. \<lparr>entryId = docId d, entryResult = result d, entryUserId = userId d,
                        entryCreatedAt = ISOString ((createdAt d + 500000) div 1000000)\<rparr>)
                 (queryAnalyses (analyses w) (uid user)))\<rparr>"
  using assms by (simp add: historyHandler_def Let_def toEntry_def toISOString_def)

lemma threeDocs_history:
  "map_option (map (\<lambda>e. (entryId e, fileName (entryResult e), entryUserId e, instantOf (entryCreatedAt e))))
     (historyOf (fst (historyHandler demoServices (Some alice) threeDocs))) =
   Some [(''d3'', ''february.csv'', ''alice'', 3000), (''d1'', ''january.csv'', ''alice'', 2001)]"
  by (simp add: historyHandler_def queryAnalyses_def threeDocs_def demoServices_def alice_def
      toEntry_def toISOString_def emptyResult_def Let_def)

text \<open>
  C9. For an authenticated caller whose storage query is answered, the history route
  returns 200 with one entry for each stored analysis whose owner is the caller's subject
  id and for no other (each of them once), every entry holding the id, the result and the
  owner of its analysis and the time stamp of the analysis rounded to the millisecond;
  the entries come latest first, so the time stamps are non-increasing in the returned
  order, in storage and as serialised. A caller without analyses gets 200 with the empty
  list, not an error.
\<close>

theorem history_lists_own_results_latest_first:
  assumes "\<not> collectionGetFails sv"
  shows "\<exists>docs.
           mset docs = mset (filter (\<lambda>d. userId d = uid user) (analyses w)) \<and>
           sorted (rev (map createdAt docs)) \<and>
           fst (historyHandler sv (Some user) w) =
             \<lparr>status = 200,
              body = HistoryJson
                (map (\<lambda>d. \<lparr>entryId = docId d, entryResult = result d, entryUserId = userId d,
                          entryCreatedAt = ISOString ((createdAt d + 500000) div 1000000)\<rparr>)
                   docs)\<rparr> \<and>
           (\<forall>d\<in>set docs. d \<in> set (analyses w) \<and> userId d = uid user) \<and>
           sorted (rev (map (\<lambda>d. (createdAt d + 500000) div 1000000) docs)) \<and>
           (filter (\<lambda>d. userId d = uid user) (analyses w) = [] \<longrightarrow>
              fst (historyHandler sv (Some user) w) = \<lparr>status = 200, body = HistoryJson []\<rparr>)"
proof (intro exI conjI)
  let ?docs = "queryAnalyses (analyses w) (uid user)"
  show m: "mset ?docs = mset (filter (\<lambda>d. userId d = uid user) (analyses w))"
    by (rule queryAnalyses_mset)
  show s: "sorted (rev (map createdAt ?docs))"
    by (rule queryAnalyses_sorted)
  show r: "fst (historyHandler sv (Some user) w) =
      \<lparr>status = 200,
       body = HistoryJson
         (map (\<lambda>d. \<lparr>entryId = docId d, entryResult = result d, entryUserId = userId d,
                   entryCreatedAt = ISOString ((createdAt d + 500000) div 1000000)\<rparr>)
            ?docs)\<rparr>"
    using assms by (rule historyHandler_answered)
  show "\<forall>d\<in>set ?docs. d \<in> set (analyses w) \<and> userId d = uid user"
    by (simp add: queryAnalyses_def)
  show "sorted (rev (map (\<lambda>d. (createdAt d + 500000) div 1000000) ?docs))"
    using s by (rule rounded_instants_sorted)
  show "filter (\<lambda>d. userId d = uid user) (analyses w) = [] \<longrightarrow>
      fst (historyHandler sv (Some user) w) = \<lparr>status = 200, body = HistoryJson []\<rparr>"
    using r by (simp add: queryAnalyses_def)
qed

theorem history_lists_own_results_latest_first_witness:
  "\<not> collectionGetFails demoServices \<and>
   map_option (map (\<lambda>e. (entryId e, fileName (entryResult e), entryUserId e, instantOf (entryCreatedAt e))))
     (historyOf (fst (historyHandler demoServices (Some alice) threeDocs))) =
     Some [(''d3'', ''february.csv'', ''alice'', 3000), (''d1'', ''january.csv'', ''alice'', 2001)] \<and>
   (\<exists>docs. map docId docs = [''d3'', ''d1''] \<and>
          mset docs = mset (filter (\<lambda>d. userId d = uid alice) (analyses threeDocs)) \<and>
          sorted (rev (map createdAt docs))) \<and>
   fst (historyHandler demoServices (Some alice) emptyWorld) = \<lparr>status = 200, body = HistoryJson []\<rparr>"
proof (intro conjI)
  show n: "\<not> collectionGetFails demoServices"
    by (simp add: demoServices_def)
  show t: "map_option (map (\<lambda>e. (entryId e, fileName (entryResult e), entryUserId e, instantOf (entryCreatedAt e))))
     (historyOf (fst (historyHandler demoServices (Some alice) threeDocs))) =
     Some [(''d3'', ''february.csv'', ''alice'', 3000), (''d1'', ''january.csv'', ''alice'', 2001)]"
    by (rule threeDocs_history)
  from history_lists_own_results_latest_first [OF n, of alice threeDocs]
  obtain docs where
    d: "mset docs = mset (filter (\<lambda>d. userId d = uid alice) (analyses threeDocs))"
      "sorted (rev (map createdAt docs))"
      "fst (historyHandler demoServices (Some alice) threeDocs) =
         \<lparr>status = 200,
          body = HistoryJson
            (map (\<lambda>d. \<lparr>entryId = docId d, entryResult = result d, entryUserId = userId d,
                      entryCreatedAt = ISOString ((createdAt d + 500000) div 1000000)\<rparr>)
               docs)\<rparr>"
    by blast
  from d(3) t have "map docId docs = [''d3'', ''d1'']"
    by (auto simp: o_def)
  with d(1,2) show "\<exists>docs. map docId docs = [''d3'', ''d1''] \<and>
          mset docs = mset (filter (\<lambda>d. userId d = uid alice) (analyses threeDocs)) \<and>
          sorted (rev (map createdAt docs))"
    by (intro exI [of _ docs]) simp
  from history_lists_own_results_latest_first [OF n, of alice emptyWorld]
  show "fst (historyHandler demoServices (Some alice) emptyWorld) = \<lparr>status = 200, body = HistoryJson []\<rparr>"
    by (auto simp: emptyWorld_def)
qed

subsection \<open>The alternatives step\<close>

lemma csvParser_plastic_scores:
  "map_option (map (\<lambda>r. calculateGreenScore (Some r))) (csvParser mapHeaders plasticCsv) = Some [0, 20]"
  by code_simp

lemma trim_demo: "trim '' Mostly fine. '' = ''Mostly fine.''"
  by code_simp

text \<open>
  C2, as stated, does not hold: in the upload of two low-scoring rows where the
  summary request and the second row's request succeed and only the first row's request
  is rejected, the upload is aborted with 500, no result is returned and nothing is
  stored, so the second row gets no suggestion although its own request succeeded.
\<close>

theorem one_rejection_counterexample:
  "map_option
     (\<lambda>rows. chatCompletion oneRejection 0 (summaryPrompt (map scoreRow rows)) 100)
     (csvParser mapHeaders plasticCsv) = Some (Some '' Mostly fine. '') \<and>
   map_option
     (\<lambda>rows. alternativeReplies oneRejection 1
        (filter (\<lambda>item. greenScore item < 40) (map scoreRow rows)))
     (csvParser mapHeaders plasticCsv) = Some [None, Some '' Mostly fine. ''] \<and>
   status (fst (uploadHandler oneRejection (Some alice)
      (Some \<lparr>originalname = ''cups.csv'', buffer = plasticCsv\<rparr>) emptyWorld)) = 500 \<and>
   errorOf (fst (uploadHandler oneRejection (Some alice)
      (Some \<lparr>originalname = ''cups.csv'', buffer = plasticCsv\<rparr>) emptyWorld)) =
     Some ''Failed to get AI insights or save data.'' \<and>
   length (analyses (snd (uploadHandler oneRejection (Some alice)
      (Some \<lparr>originalname = ''cups.csv'', buffer = plasticCsv\<rparr>) emptyWorld))) = 0"
  by code_simp

text \<open>
  C2, amended. During the alternatives step one request is sent for each low-scoring row,
  and the batch is all or nothing: when the request of any row fails, the upload is
  aborted with the 500 reply and nothing is stored; when all of them succeed (and the
  insert does), the upload is answered with 200, the summary is the trimmed reply to the
  summary request, and each low-scoring row carries as its suggestion the trimmed reply to
  its own request.
\<close>

theorem alternatives_all_or_nothing:
  assumes rows: "csv sv mapHeaders (buffer f) = Some rows"
    and summ: "chatCompletion sv 0 (summaryPrompt (map scoreRow rows)) 100 = Some content"
    and low: "low = filter (\<lambda>item. greenScore item < 40) (map scoreRow rows)"
  shows "((\<exists>k<length low. chatCompletion sv (Suc k) (alternativePrompt (low ! k)) 60 = None) \<longrightarrow>
            fst (uploadHandler sv (Some user) (Some f) w) = aiFailure \<and>
            analyses (snd (uploadHandler sv (Some user) (Some f) w)) = analyses w) \<and>
         ((\<forall>k<length low. chatCompletion sv (Suc k) (alternativePrompt (low ! k)) 60 \<noteq> None) \<longrightarrow>
          collectionAdd sv \<noteq> None \<longrightarrow>
            (\<exists>r. fst (uploadHandler sv (Some user) (Some f) w) = \<lparr>status = 200, body = ResultJson r\<rparr> \<and>
                 summary r = trim content \<and>
                 length (filter (\<lambda>item. greenScore item < 40) (items r)) = length low \<and>
                 (\<forall>k<length low.
                    map_option (\<lambda>text. setSuggestion (trim text) (low ! k))
                      (chatCompletion sv (Suc k) (alternativePrompt (low ! k)) 60) =
                    Some (filter (\<lambda>item. greenScore item < 40) (items r) ! k))))"
proof (intro conjI impI)
  let ?U = "uploadHandler sv (Some user) (Some f) w"
  let ?replies = "alternativeReplies sv 1 low"
  have U: "?U = onEnd sv user f (map scoreRow rows) w"
    using rows by (simp add: uploadHandler_def)
  have nth: "?replies ! k = chatCompletion sv (Suc k) (alternativePrompt (low ! k)) 60"
    if "k < length low" for k
    using alternativeReplies_nth [OF that, of sv 1] by simp
  {
    assume "\<exists>k<length low. chatCompletion sv (Suc k) (alternativePrompt (low ! k)) 60 = None"
    then obtain k where k: "k < length low" "?replies ! k = None"
      using nth by auto
    then have "None \<in> set ?replies"
      by (metis alternativeReplies_length nth_mem)
    then have "promiseAll ?replies = None"
      by (simp add: promiseAll_None)
    with summ low show "fst ?U = aiFailure" "analyses (snd ?U) = analyses w"
      by (simp_all add: U onEnd_def Let_def)
  }
  {
    assume all: "\<forall>k<length low. chatCompletion sv (Suc k) (alternativePrompt (low ! k)) 60 \<noteq> None"
      and add: "collectionAdd sv \<noteq> None"
    have "None \<notin> set ?replies"
    proof
      assume "None \<in> set ?replies"
      then obtain k where "k < length ?replies" "?replies ! k = None"
        by (auto simp: in_set_conv_nth)
      with all nth show False by (metis alternativeReplies_length)
    qed
    then obtain contents where c: "promiseAll ?replies = Some contents"
      using promiseAll_None [of ?replies] by fastforce
    then have rc: "?replies = map Some contents"
      by (simp add: promiseAll_Some)
    then have len: "length contents = length low"
      by (metis alternativeReplies_length length_map)
    from add obtain newId ts where a: "collectionAdd sv = Some (newId, ts)"
      by fastforce
    let ?items = "attachSuggestions (map trim contents) (map scoreRow rows)"
    let ?r = "\<lparr>fileName = originalname f, averageScore = computeAverageScore ?items,
               summary = trim content, items = ?items\<rparr>"
    have res: "fst ?U = \<lparr>status = 200, body = ResultJson ?r\<rparr>"
      using summ low c a by (simp add: U onEnd_def Let_def)
    have fl: "filter (\<lambda>item. greenScore item < 40) ?items = map2 setSuggestion (map trim contents) low"
      using len low attach_low [of "map trim contents" "map scoreRow rows"] by simp
    have each: "map_option (\<lambda>text. setSuggestion (trim text) (low ! k))
                  (chatCompletion sv (Suc k) (alternativePrompt (low ! k)) 60) =
                Some (filter (\<lambda>item. greenScore item < 40) ?items ! k)"
      if "k < length low" for k
    proof -
      from that nth rc len have "chatCompletion sv (Suc k) (alternativePrompt (low ! k)) 60 = Some (contents ! k)"
        by (metis nth_map)
      with that len fl show ?thesis by simp
    qed
    from fl len have "length (filter (\<lambda>item. greenScore item < 40) ?items) = length low"
      by simp
    with res each
    show "\<exists>r. fst ?U = \<lparr>status = 200, body = ResultJson r\<rparr> \<and>
                 summary r = trim content \<and>
                 length (filter (\<lambda>item. greenScore item < 40) (items r)) = length low \<and>
                 (\<forall>k<length low.
                    map_option (\<lambda>text. setSuggestion (trim text) (low ! k))
                      (chatCompletion sv (Suc k) (alternativePrompt (low ! k)) 60) =
                    Some (filter (\<lambda>item. greenScore item < 40) (items r) ! k))"
      by (intro exI [of _ ?r]) simp
  }
qed


theorem alternatives_all_or_nothing_witness:
  "fst (uploadHandler oneRejection (Some alice)
      (Some \<lparr>originalname = ''cups.csv'', buffer = plasticCsv\<rparr>) emptyWorld) = aiFailure \<and>
   analyses (snd (uploadHandler oneRejection (Some alice)
      (Some \<lparr>originalname = ''cups.csv'', buffer = plasticCsv\<rparr>) emptyWorld)) = [] \<and>
   (\<exists>r. fst (uploadHandler demoServices (Some alice)
            (Some \<lparr>originalname = ''cups.csv'', buffer = plasticCsv\<rparr>) emptyWorld) =
          \<lparr>status = 200, body = ResultJson r\<rparr> \<and>
        summary r = ''Mostly fine.'' \<and>
        length (filter (\<lambda>item. greenScore item < 40) (items r)) = 2 \<and>
        props (filter (\<lambda>item. greenScore item < 40) (items r) ! 0) ''suggestion'' = Some ''Mostly fine.'' \<and>
        props (filter (\<lambda>item. greenScore item < 40) (items r) ! 1) ''suggestion'' = Some ''Mostly fine.'')"
proof -
  let ?f = "\<lparr>originalname = ''cups.csv'', buffer = plasticCsv\<rparr>"
  from csvParser_plastic_scores obtain a b where
    rows: "csvParser mapHeaders plasticCsv = Some [a, b]" and
    sc: "calculateGreenScore (Some a) = 0" "calculateGreenScore (Some b) = 20"
    by auto
  let ?low = "[scoreRow a, scoreRow b]"
  have low: "?low = filter (\<lambda>item. greenScore item < 40) (map scoreRow [a, b])"
    using sc by simp
  have r1: "csv oneRejection mapHeaders (buffer ?f) = Some [a, b]"
    using rows by (simp add: oneRejection_def demoServices_def)
  have s1: "chatCompletion oneRejection 0 (summaryPrompt (map scoreRow [a, b])) 100 = Some '' Mostly fine. ''"
    by (simp add: oneRejection_def demoServices_def)
  have rej: "\<exists>k<length ?low. chatCompletion oneRejection (Suc k) (alternativePrompt (?low ! k)) 60 = None"
    by (intro exI [of _ 0]) (simp add: oneRejection_def demoServices_def)
  from alternatives_all_or_nothing [OF r1 s1 low, of alice emptyWorld, THEN conjunct1, rule_format, OF rej]
  have fail: "fst (uploadHandler oneRejection (Some alice) (Some ?f) emptyWorld) = aiFailure"
    "analyses (snd (uploadHandler oneRejection (Some alice) (Some ?f) emptyWorld)) = []"
    by (simp_all add: emptyWorld_def)
  have r2: "csv demoServices mapHeaders (buffer ?f) = Some [a, b]"
    using rows by (simp add: demoServices_def)
  have s2: "chatCompletion demoServices 0 (summaryPrompt (map scoreRow [a, b])) 100 = Some '' Mostly fine. ''"
    by (simp add: demoServices_def)
  have all: "\<forall>k<length ?low. chatCompletion demoServices (Suc k) (alternativePrompt (?low ! k)) 60 \<noteq> None"
    by (simp add: demoServices_def)
  have add: "collectionAdd demoServices \<noteq> None"
    by (simp add: demoServices_def)
  from mp [OF mp [OF conjunct2 [OF alternatives_all_or_nothing [OF r2 s2 low, of alice emptyWorld]] all] add]
  obtain r where
    r: "fst (uploadHandler demoServices (Some alice) (Some ?f) emptyWorld) = \<lparr>status = 200, body = ResultJson r\<rparr>"
      "summary r = trim '' Mostly fine. ''"
      "length (filter (\<lambda>item. greenScore item < 40) (items r)) = length ?low"
      "\<forall>k<length ?low.
         map_option (\<lambda>text. setSuggestion (trim text) (?low ! k))
           (chatCompletion demoServices (Suc k) (alternativePrompt (?low ! k)) 60) =
         Some (filter (\<lambda>item. greenScore item < 40) (items r) ! k)"
    by blast
  from r(4) [rule_format, of 0] r(4) [rule_format, of 1] have
    "filter (\<lambda>item. greenScore item < 40) (items r) ! 0 = setSuggestion (trim '' Mostly fine. '') (scoreRow a)"
    "filter (\<lambda>item. greenScore item < 40) (items r) ! 1 = setSuggestion (trim '' Mostly fine. '') (scoreRow b)"
    by (simp_all add: demoServices_def)
  with r(1,2,3) fail show ?thesis
    by (simp add: trim_demo)
qed

subsection \<open>Suggestions and the threshold of 40\<close>

text \<open>
  C7, as stated, does not hold for a file that has a column named \<open>Suggestion\<close>:
  the columns of a row are copied into its item, so the item of \<open>LED Light Bulbs\<close>, with
  score 60, comes back with the \<open>suggestion\<close> field holding the file's cell.
\<close>

theorem suggestion_column_counterexample:
  "map_option (map (\<lambda>item. (greenScore item, props item ''suggestion'')) \<circ> items)
     (resultOf (fst (postUpload demoServices
        \<lparr>jsonBody = JsonPassed, authorization = Some ''Bearer token-of-alice'',
         multipart = MulterPassed (Some \<lparr>originalname = ''bulbs.csv'', buffer = suggestionCsv\<rparr>)\<rparr>
        emptyWorld))) =
   Some [(60, Some ''keep buying these'')]"
  by code_simp

text \<open>
  C7, amended. In every successful analysis result the enrichment writes a suggestion
  only to items whose score is strictly below 40: every item with a score of 40 or more is
  returned exactly as it was scored, so its \<open>suggestion\<close> field holds what the row's own
  \<open>suggestion\<close> column held, and is unset when the file has no such column.
\<close>

theorem suggestions_only_written_below_40:
  assumes "status (fst (uploadHandler sv cu fl w)) = 200"
  shows "\<exists>f rows r.
           fl = Some f \<and> csv sv mapHeaders (buffer f) = Some rows \<and>
           resultOf (fst (uploadHandler sv cu fl w)) = Some r \<and>
           length (items r) = length rows \<and>
           (\<forall>i<length rows.
              40 \<le> greenScore (items r ! i) \<longrightarrow>
                items r ! i = scoreRow (rows ! i) \<and>
                props (items r ! i) ''suggestion'' = (rows ! i) ''suggestion'')"
proof -
  from uploadHandler_200 [OF assms] obtain f rows content contents where
    f: "fl = Some f" and rows: "csv sv mapHeaders (buffer f) = Some rows" and
    res: "fst (uploadHandler sv cu fl w) =
       \<lparr>status = 200,
        body = ResultJson
          \<lparr>fileName = originalname f,
           averageScore = computeAverageScore (attachSuggestions (map trim contents) (map scoreRow rows)),
           summary = trim content,
           items = attachSuggestions (map trim contents) (map scoreRow rows)\<rparr>\<rparr>"
    by auto
  let ?items = "attachSuggestions (map trim contents) (map scoreRow rows)"
  have high: "?items ! i = scoreRow (rows ! i) \<and> props (?items ! i) ''suggestion'' = (rows ! i) ''suggestion''"
    if i: "i < length rows" and h: "40 \<le> greenScore (?items ! i)" for i
  proof -
    have "greenScore (?items ! i) = map greenScore ?items ! i"
      using i by (intro nth_map [symmetric]) simp
    also have "\<dots> = map greenScore (map scoreRow rows) ! i"
      by (simp only: attach_greenScore)
    also have "\<dots> = greenScore (map scoreRow rows ! i)"
      using i by (intro nth_map) simp
    finally have "\<not> greenScore (map scoreRow rows ! i) < 40"
      using h by simp
    with i have "?items ! i = map scoreRow rows ! i"
      using attach_high [of i "map scoreRow rows" "map trim contents"] by simp
    with i show ?thesis by simp
  qed
  show ?thesis
    by (intro exI [of _ f] exI [of _ rows] exI [of _ "the (resultOf (fst (uploadHandler sv cu fl w)))"])
       (use f rows res high in simp)
qed

theorem suggestions_only_written_below_40_witness:
  "status (fst (uploadHandler demoServices (Some alice)
      (Some \<lparr>originalname = ''order.csv'', buffer = readmeCsv\<rparr>) emptyWorld)) = 200 \<and>
   (\<exists>f rows r.
      Some \<lparr>originalname = ''order.csv'', buffer = readmeCsv\<rparr> = Some f \<and>
      csv demoServices mapHeaders (buffer f) = Some rows \<and>
      resultOf (fst (uploadHandler demoServices (Some alice)
        (Some \<lparr>originalname = ''order.csv'', buffer = readmeCsv\<rparr>) emptyWorld)) = Some r \<and>
      length (items r) = length rows \<and>
      (\<forall>i<length rows.
         40 \<le> greenScore (items r ! i) \<longrightarrow>
           items r ! i = scoreRow (rows ! i) \<and>
           props (items r ! i) ''suggestion'' = (rows ! i) ''suggestion''))"
  using suggestions_only_written_below_40 [OF demo_readme_200] demo_readme_200
  by simp


end
